theory Spec2Isabelle
  imports Complex_Main "HOL-Library.Char_ord" "HOL-Library.List_Lexorder" "HOL-Library.Product_Lexorder"
begin

section \<open>Data model of \<open>data_collector.py\<close>\<close>

text \<open>
  The collector receives the fills of the session from the brokerage library.  A fill
  carries a contract and an execution.  Prices are Python floats; they are modelled by
  exact rationals, so the theorems below are about the arithmetic the code writes down
  (sums, differences, one multiplication by 100), not about binary rounding.  An aware
  datetime is modelled by the instant it denotes.  An attribute that \<open>hasattr\<close> may
  find missing is an option.
\<close>

type_synonym timestamp = int

record Contract =
  symbol :: string
  strike :: "rat option"
  right :: "string option"

record Execution =
  permId :: int
  time :: timestamp
  side :: string
  price :: rat

record Fill =
  contract :: Contract
  execution :: Execution

text \<open>
  The local variables of one iteration of the loop over the orders, at the point where
  the row is written.  \<open>exit_price\<close> is \<open>None\<close> for Python's \<open>None\<close>.
\<close>

record trade =
  trade_date :: string
  trade_type :: string
  trade_symbol :: string
  strikes_str :: string
  entry_action :: string
  entry_time :: string
  entry_price :: rat
  exit_action :: string
  exit_price :: "rat option"
  profit :: rat
  status :: string

text \<open>
  \<open>execution.time.astimezone().strftime(...)\<close> depends on the time zone of the machine;
  the two renderings are parameters of the model.
\<close>

record local_fmt =
  fmt_datetime :: "timestamp \<Rightarrow> string"
  fmt_date :: "timestamp \<Rightarrow> string"

text \<open>
  The ledger file: \<open>None\<close> when \<open>os.path.isfile\<close> is false, otherwise its lines, each
  line the list of its cells.
\<close>

type_synonym csv_line = "string list"
type_synonym csv_file = "csv_line list option"

section \<open>Rendering of numbers\<close>

definition digit :: "nat \<Rightarrow> char" where
  "digit n = ''0123456789'' ! n"

fun str_nat :: "nat \<Rightarrow> string" where
  "str_nat n = (if n < 10 then [digit n] else str_nat (n div 10) @ [digit (n mod 10)])"

declare str_nat.simps [simp del]

text \<open>\<open>str(i)\<close> for a Python int.\<close>

definition str_int :: "int \<Rightarrow> string" where
  "str_int i = (if i < 0 then CHR ''-'' # str_nat (nat (- i)) else str_nat (nat i))"

text \<open>\<open>int(x)\<close> for a finite float: truncation towards zero.\<close>

definition py_int :: "rat \<Rightarrow> int" where
  "py_int x = (if x < 0 then - \<lfloor>- x\<rfloor> else \<lfloor>x\<rfloor>)"

text \<open>Rounding to the nearest integer, ties to the even one, of a non-negative number.\<close>

definition round_half_even :: "rat \<Rightarrow> nat" where
  "round_half_even y =
     (let q = \<lfloor>y\<rfloor>; r = y - of_int q
      in nat (if r < 1 / 2 then q else if 1 / 2 < r then q + 1
              else if even q then q else q + 1))"

text \<open>
  \<open>f'{x:.2f}'\<close>: the sign, the integer part, a point and two decimals of the value
  rounded to hundredths.  A negative value keeps its sign even when it rounds to zero.
\<close>

definition fmt2 :: "rat \<Rightarrow> string" where
  "fmt2 x =
     (let n = round_half_even (\<bar>x\<bar> * 100)
      in (if x < 0 then ''-'' else '''') @ str_nat (n div 100) @ ''.'' @
         [digit (n mod 100 div 10), digit (n mod 10)])"

section \<open>Grouping\<close>

text \<open>
  A Python dict of lists, in insertion order.  \<open>dict_append k v d\<close> is
  \<open>if k not in d: d[k] = []\<close> followed by \<open>d[k].append(v)\<close>.
\<close>

fun dict_append :: "'k \<Rightarrow> 'v \<Rightarrow> ('k \<times> 'v list) list \<Rightarrow> ('k \<times> 'v list) list" where
  "dict_append k v [] = [(k, [v])]"
| "dict_append k v ((k', vs) # d) =
     (if k = k' then (k', vs @ [v]) # d else (k', vs) # dict_append k v d)"

definition group_by :: "('a \<Rightarrow> 'k) \<Rightarrow> 'a list \<Rightarrow> ('k \<times> 'a list) list" where
  "group_by f xs = foldl (\<lambda>d x. dict_append (f x) x d) [] xs"

text \<open>\<open>trades_by_perm_id\<close>.\<close>

definition trades_by_perm_id :: "Fill list \<Rightarrow> (int \<times> Fill list) list" where
  "trades_by_perm_id executions = group_by (\<lambda>e. permId (execution e)) executions"

text \<open>
  \<open>execs.sort(key=...)\<close> is stable, as \<open>sort_key\<close> is; \<open>time_groups\<close> is the list of the
  values of the dict \<open>times\<close>.
\<close>

definition time_groups :: "Fill list \<Rightarrow> Fill list list" where
  "time_groups execs =
     map snd (group_by (\<lambda>e. time (execution e)) (sort_key (\<lambda>e. time (execution e)) execs))"

section \<open>Opening bucket\<close>

text \<open>
  The loop that looks for the combo execution: the state is \<open>(combo_exec, leg_execs)\<close>.
\<close>

fun classify :: "Fill list \<Rightarrow> Fill option \<times> Fill list \<Rightarrow> Fill option \<times> Fill list" where
  "classify [] st = st"
| "classify (e # es) (combo_exec, leg_execs) =
     (if price (execution e) < 0 then classify es (Some e, leg_execs)
      else classify es (combo_exec, leg_execs @ [e]))"

definition sum_price :: "Fill list \<Rightarrow> rat" where
  "sum_price es = sum_list (map (\<lambda>e. price (execution e)) es)"

text \<open>
  \<open>(contract, execution, entry_price, entry_action)\<close> as the two branches on
  \<open>combo_exec\<close> set them.  The bucket is never empty where this is called; for the
  empty list, where \<open>opening_execs[0]\<close> would raise, the result is \<open>None\<close>.
\<close>

definition entry_info :: "Fill list \<Rightarrow> (Contract \<times> Execution \<times> rat \<times> string) option" where
  "entry_info opening_execs =
     (case classify opening_execs (None, []) of
        (Some combo_exec, leg_execs) \<Rightarrow>
          Some (contract combo_exec, execution combo_exec,
                \<bar>price (execution combo_exec)\<bar>, side (execution combo_exec))
      | (None, leg_execs) \<Rightarrow>
          (case opening_execs of
             [] \<Rightarrow> None
           | first_exec # _ \<Rightarrow>
               let sold_legs = filter (\<lambda>e. side (execution e) = ''SLD'') leg_execs;
                   bought_legs = filter (\<lambda>e. side (execution e) = ''BOT'') leg_execs;
                   credit_received = sum_price sold_legs;
                   debit_paid = sum_price bought_legs
               in Some (contract first_exec, execution first_exec,
                        \<bar>credit_received - debit_paid\<bar>,
                        if credit_received > debit_paid then ''BOT'' else ''SLD'')))"

definition strikes_of :: "Fill list \<Rightarrow> int list" where
  "strikes_of opening_execs =
     sort (map py_int (List.map_filter (\<lambda>e. strike (contract e)) opening_execs))"

definition render_strikes :: "int list \<Rightarrow> string" where
  "render_strikes strikes =
     (if length strikes \<ge> 2 then str_int (strikes ! 0) @ ''/'' @ str_int (strikes ! 1)
      else if length strikes = 1 then str_int (strikes ! 0)
      else ''unknown'')"

definition trade_type_of :: "Fill list \<Rightarrow> string" where
  "trade_type_of opening_execs =
     (let rights = List.map_filter (\<lambda>e. right (contract e)) opening_execs
      in if ''P'' \<in> set rights then ''Bull Put''
         else if ''C'' \<in> set rights then ''Bear Call''
         else ''unknown'')"

section \<open>Closing bucket\<close>

text \<open>\<open>(exit_price, exit_action)\<close> of a closing bucket.\<close>

definition exit_info :: "Fill list \<Rightarrow> rat \<times> string" where
  "exit_info closing_execs =
     (case find (\<lambda>e. side (execution e) = ''SLD'' \<and> price (execution e) < 0) closing_execs of
        Some closing_combo \<Rightarrow> (\<bar>price (execution closing_combo)\<bar>, ''SLD'')
      | None \<Rightarrow>
          let closing_sold =
                filter (\<lambda>e. side (execution e) = ''SLD'' \<and> price (execution e) > 0) closing_execs;
              closing_bought =
                filter (\<lambda>e. side (execution e) = ''BOT'' \<and> price (execution e) > 0) closing_execs;
              closing_credit = sum_price closing_sold;
              closing_debit = sum_price closing_bought
          in (closing_debit - closing_credit,
              if closing_credit > closing_debit then ''SLD'' else ''BOT''))"

section \<open>One order\<close>

text \<open>
  The body of the loop over \<open>trades_by_perm_id\<close>, from the time groups on; \<open>None\<close> is
  the \<open>continue\<close>.
\<close>

definition build_trade :: "local_fmt \<Rightarrow> Fill list list \<Rightarrow> trade option" where
  "build_trade L tgs =
     (case tgs of
        [] \<Rightarrow> None
      | opening_execs # later \<Rightarrow>
          (case entry_info opening_execs of
             None \<Rightarrow> None
           | Some (c, x, entry_price', entry_action') \<Rightarrow>
               let (exit_price', exit_action', profit', status') =
                     (case later of
                        closing_execs # _ \<Rightarrow>
                          let (xp, xa) = exit_info closing_execs
                          in (Some xp, xa, (entry_price' - xp) * 100, ''closed'')
                      | [] \<Rightarrow> (None, '''', 0, ''open''))
               in Some \<lparr>trade_date = fmt_date L (time x),
                         trade_type = trade_type_of opening_execs,
                         trade_symbol = symbol c,
                         strikes_str = render_strikes (strikes_of opening_execs),
                         entry_action = entry_action',
                         entry_time = fmt_datetime L (time x),
                         entry_price = entry_price',
                         exit_action = exit_action',
                         exit_price = exit_price',
                         profit = profit',
                         status = status'\<rparr>))"

definition process_order :: "local_fmt \<Rightarrow> Fill list \<Rightarrow> trade option" where
  "process_order L execs = build_trade L (time_groups execs)"

section \<open>The ledger\<close>

definition fieldnames :: "string list" where
  "fieldnames =
     [''date'', ''trade_type'', ''symbol'', ''strikes'', ''entry_action'', ''entry_time'',
      ''entry_price'', ''exit_action'', ''exit_price'', ''profit'', ''status'', ''strategy'']"

text \<open>
  The dict given to \<open>writer.writerow\<close>, as the cells in the order of \<open>fieldnames\<close>.  The
  guard of the \<open>exit_price\<close> cell is the truth value of \<open>exit_price\<close>: \<open>None\<close> and zero
  are false.
\<close>

definition row_of :: "string \<Rightarrow> trade \<Rightarrow> csv_line" where
  "row_of strategy t =
     [trade_date t, trade_type t, trade_symbol t, strikes_str t, entry_action t,
      entry_time t, fmt2 (entry_price t), exit_action t,
      (case exit_price t of None \<Rightarrow> '''' | Some x \<Rightarrow> if x \<noteq> 0 then fmt2 x else ''''),
      fmt2 (profit t), status t, strategy]"

definition cell :: "string \<Rightarrow> csv_line \<Rightarrow> string option" where
  "cell name row = map_of (zip fieldnames row) name"

text \<open>The trades of a run, in the order of the dict of orders.\<close>

definition trades_of :: "local_fmt \<Rightarrow> Fill list \<Rightarrow> trade list" where
  "trades_of L executions =
     List.map_filter (process_order L) (map snd (trades_by_perm_id executions))"

text \<open>
  \<open>collect_daily_results\<close>, from the result of \<open>ib.reqExecutions\<close> on: the number of
  trades written and the file afterwards.  With no executions the function returns
  before the file is opened.  Opening in mode \<open>'a'\<close> creates a missing file.
\<close>

definition collect_daily_results ::
    "local_fmt \<Rightarrow> Fill list \<Rightarrow> csv_file \<Rightarrow> string \<Rightarrow> nat \<times> csv_file" where
  "collect_daily_results L executions file strategy =
     (if executions = [] then (0, file)
      else
        let file_exists = (file \<noteq> None);
            old = (case file of None \<Rightarrow> [] | Some ls \<Rightarrow> ls);
            header = (if \<not> file_exists then [fieldnames] else []);
            rows = map (row_of strategy) (trades_of L executions)
        in (length rows, Some (old @ header @ rows)))"

section \<open>The profit column of \<open>load_data\<close> in \<open>streamlit-dashboard.py\<close>\<close>
















section \<open>Example inputs\<close>

definition ex_fmt :: local_fmt where
  "ex_fmt = \<lparr>fmt_datetime = (\<lambda>t. ''T'' @ str_int t), fmt_date = (\<lambda>t. ''D'' @ str_int t)\<rparr>"

definition mk_fill ::
    "int \<Rightarrow> timestamp \<Rightarrow> string \<Rightarrow> rat \<Rightarrow> rat option \<Rightarrow> string option \<Rightarrow> Fill" where
  "mk_fill p t s x k r =
     \<lparr>contract = \<lparr>symbol = ''SPX'', strike = k, right = r\<rparr>,
      execution = \<lparr>permId = p, time = t, side = s, price = x\<rparr>\<rparr>"


section \<open>Properties of the collector\<close>

lemma mk_fill_simps [simp]:
  "price (execution (mk_fill p t s x k r)) = x"
  "side (execution (mk_fill p t s x k r)) = s"
  "time (execution (mk_fill p t s x k r)) = t"
  "permId (execution (mk_fill p t s x k r)) = p"
  "strike (contract (mk_fill p t s x k r)) = k"
  "right (contract (mk_fill p t s x k r)) = r"
  "symbol (contract (mk_fill p t s x k r)) = ''SPX''"
  by (simp_all add: mk_fill_def)

lemma classify_eq:
  "classify es (c, legs) =
     ((case filter (\<lambda>e. price (execution e) < 0) es of [] \<Rightarrow> c
       | _ # _ \<Rightarrow> Some (last (filter (\<lambda>e. price (execution e) < 0) es))),
      legs @ filter (\<lambda>e. \<not> price (execution e) < 0) es)"
  by (induction es arbitrary: c legs) (auto split: list.splits)

lemma entry_info_combo:
  assumes "filter (\<lambda>e. price (execution e) < 0) opening_execs \<noteq> []"
  shows "entry_info opening_execs =
     (let combo = last (filter (\<lambda>e. price (execution e) < 0) opening_execs)
      in Some (contract combo, execution combo, \<bar>price (execution combo)\<bar>, side (execution combo)))"
  using assms by (auto simp add: entry_info_def classify_eq Let_def split: list.splits)

lemma entry_info_legs:
  assumes "\<forall>e\<in>set opening_execs. \<not> price (execution e) < 0" and "opening_execs \<noteq> []"
  shows "entry_info opening_execs =
     (let credit = sum_price (filter (\<lambda>e. side (execution e) = ''SLD'') opening_execs);
          debit = sum_price (filter (\<lambda>e. side (execution e) = ''BOT'') opening_execs)
      in Some (contract (hd opening_execs), execution (hd opening_execs), \<bar>credit - debit\<bar>,
               if credit > debit then ''BOT'' else ''SLD''))"
proof -
  have f: "filter (\<lambda>e. price (execution e) < 0) opening_execs = []"
    using assms(1) by (simp add: filter_empty_conv)
  have g: "filter (\<lambda>e. \<not> price (execution e) < 0) opening_execs = opening_execs"
    using assms(1) by (simp add: filter_id_conv)
  obtain a r where o: "opening_execs = a # r" using assms(2) by (cases opening_execs) auto
  show ?thesis
    unfolding entry_info_def classify_eq f g by (simp add: o Let_def)
qed

lemma entry_info_Some:
  "opening_execs \<noteq> [] \<Longrightarrow> \<exists>c x p a. entry_info opening_execs = Some (c, x, p, a)"
  by (cases "filter (\<lambda>e. price (execution e) < 0) opening_execs = []")
     (simp_all add: entry_info_legs entry_info_combo filter_empty_conv Let_def)

lemma exit_info_fallback:
  assumes "\<forall>e\<in>set closing_execs. \<not> (side (execution e) = ''SLD'' \<and> price (execution e) < 0)"
  shows "exit_info closing_execs =
     (let closing_credit = sum_price (filter (\<lambda>e. side (execution e) = ''SLD'' \<and> price (execution e) > 0) closing_execs);
          closing_debit = sum_price (filter (\<lambda>e. side (execution e) = ''BOT'' \<and> price (execution e) > 0) closing_execs)
      in (closing_debit - closing_credit, if closing_credit > closing_debit then ''SLD'' else ''BOT''))"
proof -
  have "find (\<lambda>e. side (execution e) = ''SLD'' \<and> price (execution e) < 0) closing_execs = None"
    using assms by (simp add: find_None_iff)
  then show ?thesis by (simp add: exit_info_def)
qed

lemma build_trade_open:
  assumes "entry_info opening_execs = Some (c, x, p, a)"
  shows "build_trade L [opening_execs] =
     Some \<lparr>trade_date = fmt_date L (time x),
           trade_type = trade_type_of opening_execs,
           trade_symbol = symbol c,
           strikes_str = render_strikes (strikes_of opening_execs),
           entry_action = a,
           entry_time = fmt_datetime L (time x),
           entry_price = p,
           exit_action = '''',
           exit_price = None,
           profit = 0,
           status = ''open''\<rparr>"
  using assms by (simp add: build_trade_def)

lemma build_trade_closed:
  assumes "entry_info opening_execs = Some (c, x, p, a)"
  shows "build_trade L (opening_execs # closing_execs # rest) =
     Some \<lparr>trade_date = fmt_date L (time x),
           trade_type = trade_type_of opening_execs,
           trade_symbol = symbol c,
           strikes_str = render_strikes (strikes_of opening_execs),
           entry_action = a,
           entry_time = fmt_datetime L (time x),
           entry_price = p,
           exit_action = snd (exit_info closing_execs),
           exit_price = Some (fst (exit_info closing_execs)),
           profit = (p - fst (exit_info closing_execs)) * 100,
           status = ''closed''\<rparr>"
  using assms by (simp add: build_trade_def split: prod.splits)

lemma group_by_snoc: "group_by f (xs @ [x]) = dict_append (f x) x (group_by f xs)"
  by (simp add: group_by_def)

lemma group_by_Nil: "group_by f [] = []"
  by (simp add: group_by_def)

lemma dict_append_keys:
  "map fst (dict_append k v d) = (if k \<in> fst ` set d then map fst d else map fst d @ [k])"
  by (induction d) (auto simp: rev_image_eqI)

lemma dict_append_map_of:
  "map_of (dict_append k v d) =
     (map_of d)(k \<mapsto> (case map_of d k of None \<Rightarrow> [v] | Some vs \<Rightarrow> vs @ [v]))"
  by (induction d) (auto simp: fun_eq_iff)

lemma group_by_distinct: "distinct (map fst (group_by f xs))"
  by (induction xs rule: rev_induct) (simp_all add: group_by_Nil group_by_snoc dict_append_keys)

lemma group_by_keys: "fst ` set (group_by f xs) = f ` set xs"
proof (induction xs rule: rev_induct)
  case Nil
  show ?case by (simp add: group_by_Nil)
next
  case (snoc x xs)
  have "fst ` set (group_by f (xs @ [x])) = set (map fst (dict_append (f x) x (group_by f xs)))"
    by (simp add: group_by_snoc)
  also have "\<dots> = insert (f x) (fst ` set (group_by f xs))"
    by (auto simp: dict_append_keys)
  finally show ?case using snoc.IH by simp
qed

lemma group_by_map_of:
  "map_of (group_by f xs) k =
     (if k \<in> f ` set xs then Some (filter (\<lambda>x. f x = k) xs) else None)"
proof (induction xs rule: rev_induct)
  case Nil
  show ?case by (simp add: group_by_Nil)
next
  case (snoc x xs)
  have nil: "filter (\<lambda>y. f y = f x) xs = []" if "f x \<notin> f ` set xs"
  proof -
    have "\<forall>y\<in>set xs. f y \<noteq> f x" using that by (metis imageI)
    then show ?thesis by (simp add: filter_empty_conv)
  qed
  show ?case
    using snoc.IH nil by (auto simp: group_by_snoc dict_append_map_of)
qed

lemma group_by_values:
  assumes "(k, vs) \<in> set (group_by f xs)"
  shows "vs = filter (\<lambda>x. f x = k) xs \<and> vs \<noteq> []"
proof -
  have m: "map_of (group_by f xs) k = Some vs"
    using assms group_by_distinct [of f xs] by simp
  then have k: "k \<in> f ` set xs" and vs: "vs = filter (\<lambda>x. f x = k) xs"
    by (auto simp: group_by_map_of split: if_splits)
  from k have "filter (\<lambda>x. f x = k) xs \<noteq> []" by (auto simp: filter_empty_conv)
  with vs show ?thesis by simp
qed

lemma group_by_length: "length (group_by f xs) = card (f ` set xs)"
proof -
  have "length (group_by f xs) = length (map fst (group_by f xs))" by simp
  also have "\<dots> = card (set (map fst (group_by f xs)))"
    using group_by_distinct [of f xs] by (simp only: distinct_card)
  finally show ?thesis by (simp add: group_by_keys)
qed

lemma group_by_const:
  assumes "xs \<noteq> []" and "\<forall>x\<in>set xs. f x = k"
  shows "group_by f xs = [(k, xs)]"
proof -
  have "f ` set xs = {k}" using assms by (cases xs) auto
  then have len: "length (group_by f xs) = 1" by (simp add: group_by_length)
  then obtain k' vs where g: "group_by f xs = [(k', vs)]"
    by (cases "group_by f xs") (auto simp: length_Suc_conv)
  have "k' \<in> f ` set xs" using group_by_keys [of f xs] g by auto
  then have k: "k' = k" using assms(2) by auto
  have "vs = filter (\<lambda>x. f x = k') xs" using group_by_values [of k' vs f xs] g by simp
  then have "vs = xs" using assms(2) k by (simp add: filter_id_conv)
  with g k show ?thesis by simp
qed

lemma sort_key_Nil_iff: "sort_key f xs = [] \<longleftrightarrow> xs = []"
  using length_sort [of f xs] by (simp only: length_0_conv [symmetric])

lemma time_groups_single:
  assumes "execs \<noteq> []" and "\<forall>e\<in>set execs. time (execution e) = t"
  shows "time_groups execs = [sort_key (\<lambda>e. time (execution e)) execs]"
proof -
  let ?s = "sort_key (\<lambda>e. time (execution e)) execs"
  have 1: "?s \<noteq> []" using assms(1) by (simp add: sort_key_Nil_iff)
  have 2: "\<forall>e\<in>set ?s. time (execution e) = t"
    using assms(2) by simp
  show ?thesis
    unfolding time_groups_def group_by_const [OF 1 2] by simp
qed

lemma time_groups_nonempty:
  assumes "execs \<noteq> []"
  shows "\<exists>g later. time_groups execs = g # later \<and> g \<noteq> []"
proof -
  let ?s = "sort_key (\<lambda>e. time (execution e)) execs"
  have "(\<lambda>e. time (execution e)) ` set ?s \<noteq> {}" using assms by simp
  then have "length (group_by (\<lambda>e. time (execution e)) ?s) \<noteq> 0"
    unfolding group_by_length by simp
  then obtain k vs rest where g: "group_by (\<lambda>e. time (execution e)) ?s = (k, vs) # rest"
    by (cases "group_by (\<lambda>e. time (execution e)) ?s") auto
  then have "(k, vs) \<in> set (group_by (\<lambda>e. time (execution e)) ?s)" by simp
  then have "vs \<noteq> []" by (blast dest: group_by_values)
  with g show ?thesis by (simp add: time_groups_def)
qed

lemma process_order_Some:
  assumes "execs \<noteq> []"
  shows "\<exists>t. process_order L execs = Some t \<and> (status t = ''open'' \<or> status t = ''closed'')"
proof -
  obtain g later where tg: "time_groups execs = g # later" and ne: "g \<noteq> []"
    using time_groups_nonempty [OF assms] by blast
  obtain c x p a where ei: "entry_info g = Some (c, x, p, a)"
    using entry_info_Some [OF ne] by blast
  show ?thesis
  proof (cases later)
    case Nil
    then show ?thesis by (simp add: process_order_def tg build_trade_open [OF ei])
  next
    case (Cons cl rest)
    then show ?thesis by (simp add: process_order_def tg build_trade_closed [OF ei])
  qed
qed

lemma map_filter_all_Some:
  assumes "\<forall>x\<in>set xs. \<exists>y. f x = Some y"
  shows "List.map_filter f xs = map (\<lambda>x. the (f x)) xs"
  using assms by (induction xs) (auto simp: List.map_filter_simps)

lemma trades_of_eq:
  "trades_of L executions =
     map (\<lambda>g. the (process_order L (snd g))) (trades_by_perm_id executions)"
proof -
  have "\<forall>x\<in>set (map snd (trades_by_perm_id executions)). \<exists>y. process_order L x = Some y"
  proof
    fix x assume "x \<in> set (map snd (trades_by_perm_id executions))"
    then obtain k where "(k, x) \<in> set (group_by (\<lambda>e. permId (execution e)) executions)"
      by (auto simp: trades_by_perm_id_def)
    then have "x \<noteq> []" using group_by_values by fastforce
    then show "\<exists>y. process_order L x = Some y" using process_order_Some by blast
  qed
  then show ?thesis by (simp add: trades_of_def map_filter_all_Some comp_def)
qed

lemma trades_of_length:
  "length (trades_of L executions) = card ((\<lambda>e. permId (execution e)) ` set executions)"
  by (simp add: trades_of_eq trades_by_perm_id_def group_by_length)

lemma trades_of_mem:
  assumes "t \<in> set (trades_of L executions)"
  shows "\<exists>k. k \<in> (\<lambda>e. permId (execution e)) ` set executions \<and>
             process_order L (filter (\<lambda>e. permId (execution e) = k) executions) = Some t"
proof -
  from assms obtain k vs where m: "(k, vs) \<in> set (trades_by_perm_id executions)"
      and t: "t = the (process_order L vs)"
    by (auto simp: trades_of_eq)
  have vs: "vs = filter (\<lambda>e. permId (execution e) = k) executions" "vs \<noteq> []"
    using group_by_values m by (fastforce simp: trades_by_perm_id_def)+
  have "k \<in> (\<lambda>e. permId (execution e)) ` set executions"
    using m group_by_keys [of "\<lambda>e. permId (execution e)" executions]
    by (force simp: trades_by_perm_id_def)
  moreover have "process_order L vs = Some t"
    using process_order_Some [OF vs(2), of L] t by auto
  ultimately show ?thesis using vs(1) by blast
qed


lemma digit_in: "n < 10 \<Longrightarrow> digit n \<in> set ''0123456789''"
  unfolding digit_def by (rule nth_mem) simp

lemma str_nat_no_slash: "CHR ''/'' \<notin> set (str_nat n)"
proof (induction n rule: str_nat.induct)
  case (1 n)
  have d: "CHR ''/'' \<noteq> digit m" if "m < 10" for m
    using digit_in [OF that] by auto
  show ?case
  proof (cases "n < 10")
    case True
    then show ?thesis using d [of n] by (simp add: str_nat.simps [of n])
  next
    case False
    then show ?thesis using 1 d [of "n mod 10"] by (simp add: str_nat.simps [of n])
  qed
qed

lemma str_int_no_slash: "count_list (str_int i) CHR ''/'' = 0"
  by (simp add: str_int_def str_nat_no_slash)

lemma render_strikes_cases:
  "render_strikes strikes =
     (case strikes of [] \<Rightarrow> ''unknown'' | [a] \<Rightarrow> str_int a
      | a # b # _ \<Rightarrow> str_int a @ ''/'' @ str_int b)"
  by (simp add: render_strikes_def split: list.splits)

lemma fmt2_zero: "fmt2 0 = ''0.00''"
  by (simp add: fmt2_def round_half_even_def str_nat.simps digit_def)

lemma fmt2_neg: "x < 0 \<Longrightarrow> fmt2 x = CHR ''-'' # fmt2 (- x)"
  by (simp add: fmt2_def Let_def)

lemma cell_row_of:
  "cell ''exit_action'' (row_of strategy t) = Some (exit_action t)"
  "cell ''exit_price'' (row_of strategy t) =
     Some (case exit_price t of None \<Rightarrow> '''' | Some x \<Rightarrow> if x \<noteq> 0 then fmt2 x else '''')"
  "cell ''profit'' (row_of strategy t) = Some (fmt2 (profit t))"
  "cell ''status'' (row_of strategy t) = Some (status t)"
  by (simp_all add: cell_def row_of_def fieldnames_def)

lemma build_trade_cases:
  assumes "build_trade L tgs = Some t"
  shows "(\<exists>g. tgs = [g] \<and> status t = ''open'' \<and> exit_price t = None) \<or>
         (\<exists>g cl rest. tgs = g # cl # rest \<and> status t = ''closed'' \<and>
            exit_price t = Some (fst (exit_info cl)))"
proof -
  from assms obtain g later where tgs: "tgs = g # later"
    by (cases tgs) (simp_all add: build_trade_def)
  from assms tgs obtain c x p a where ei: "entry_info g = Some (c, x, p, a)"
    by (cases "entry_info g") (auto simp: build_trade_def)
  show ?thesis
  proof (cases later)
    case Nil
    with assms tgs show ?thesis unfolding Nil tgs build_trade_open [OF ei] by auto
  next
    case (Cons cl rest)
    with assms tgs show ?thesis unfolding Cons tgs build_trade_closed [OF ei] by auto
  qed
qed

text \<open>
  Claim C5.  In the opening bucket the loop sends every fill with a strictly negative
  price to \<open>combo_exec\<close> and every other fill to \<open>leg_execs\<close>; the combo execution that
  remains is the last fill with a negative price.  When there is one, the entry price
  is the absolute value of its price, the entry action is its side, and the symbol and
  the entry time and date of the trade are read from it.
\<close>

theorem combo_entry:
  "classify opening_execs (None, []) =
     (if filter (\<lambda>e. price (execution e) < 0) opening_execs = [] then None
      else Some (last (filter (\<lambda>e. price (execution e) < 0) opening_execs)),
      filter (\<lambda>e. \<not> price (execution e) < 0) opening_execs) \<and>
   (\<forall>combo. fst (classify opening_execs (None, [])) = Some combo \<longrightarrow>
      (\<exists>t. build_trade L (opening_execs # later) = Some t \<and>
           entry_price t = \<bar>price (execution combo)\<bar> \<and>
           entry_action t = side (execution combo) \<and>
           trade_symbol t = symbol (contract combo) \<and>
           entry_time t = fmt_datetime L (time (execution combo)) \<and>
           trade_date t = fmt_date L (time (execution combo))))"
proof (intro conjI allI impI)
  show c: "classify opening_execs (None, []) =
     (if filter (\<lambda>e. price (execution e) < 0) opening_execs = [] then None
      else Some (last (filter (\<lambda>e. price (execution e) < 0) opening_execs)),
      filter (\<lambda>e. \<not> price (execution e) < 0) opening_execs)"
    by (simp add: classify_eq split: list.splits)
  fix combo
  assume "fst (classify opening_execs (None, [])) = Some combo"
  then have ne: "filter (\<lambda>e. price (execution e) < 0) opening_execs \<noteq> []"
    and combo: "combo = last (filter (\<lambda>e. price (execution e) < 0) opening_execs)"
    by (auto simp: c split: if_splits)
  have ei: "entry_info opening_execs =
      Some (contract combo, execution combo, \<bar>price (execution combo)\<bar>, side (execution combo))"
    using entry_info_combo [OF ne] by (simp add: combo Let_def)
  show "\<exists>t. build_trade L (opening_execs # later) = Some t \<and>
           entry_price t = \<bar>price (execution combo)\<bar> \<and>
           entry_action t = side (execution combo) \<and>
           trade_symbol t = symbol (contract combo) \<and>
           entry_time t = fmt_datetime L (time (execution combo)) \<and>
           trade_date t = fmt_date L (time (execution combo))"
    by (cases later) (simp_all add: build_trade_open [OF ei] build_trade_closed [OF ei])
qed

theorem combo_entry_witness:
  "\<exists>t. build_trade ex_fmt
          [[mk_fill 1 10 ''SLD'' 5 (Some 90) (Some ''P''),
            mk_fill 1 10 ''SLD'' (- (7 / 2)) None None,
            mk_fill 1 10 ''BOT'' (3 / 2) (Some 95) (Some ''P'')]] = Some t \<and>
       entry_price t = 7 / 2 \<and> entry_action t = ''SLD''"
  using combo_entry [of "[mk_fill 1 10 ''SLD'' 5 (Some 90) (Some ''P''),
            mk_fill 1 10 ''SLD'' (- (7 / 2)) None None,
            mk_fill 1 10 ''BOT'' (3 / 2) (Some 95) (Some ''P'')]" ex_fmt "[]"]
  by auto



text \<open>
  Claim C2, as stated: the two legs \<open>SLD\<close> 5.00 and \<open>BOT\<close> 1.50 would give the entry
  action \<open>SLD\<close>.  The code gives \<open>BOT\<close>.
\<close>

theorem two_leg_entry_counterexample:
  "map_option entry_action
     (process_order ex_fmt
        [mk_fill 1 10 ''SLD'' 5 (Some 90) (Some ''P''),
         mk_fill 1 10 ''BOT'' (3 / 2) (Some 95) (Some ''P'')]) = Some ''BOT'' \<and>
   map_option entry_action
     (process_order ex_fmt
        [mk_fill 1 10 ''SLD'' 5 (Some 90) (Some ''P''),
         mk_fill 1 10 ''BOT'' (3 / 2) (Some 95) (Some ''P'')]) \<noteq> Some ''SLD''"
proof -
  have tg: "time_groups [mk_fill 1 10 ''SLD'' 5 (Some 90) (Some ''P''),
         mk_fill 1 10 ''BOT'' (3 / 2) (Some 95) (Some ''P'')] =
      [[mk_fill 1 10 ''SLD'' 5 (Some 90) (Some ''P''),
         mk_fill 1 10 ''BOT'' (3 / 2) (Some 95) (Some ''P'')]]"
    by (simp add: time_groups_def group_by_def)
  have ei: "entry_info [mk_fill 1 10 ''SLD'' 5 (Some 90) (Some ''P''),
         mk_fill 1 10 ''BOT'' (3 / 2) (Some 95) (Some ''P'')] =
      Some (contract (mk_fill 1 10 ''SLD'' 5 (Some 90) (Some ''P'')),
            execution (mk_fill 1 10 ''SLD'' 5 (Some 90) (Some ''P'')), 7 / 2, ''BOT'')"
    by (simp add: entry_info_legs sum_price_def)
  show ?thesis
    by (simp add: process_order_def tg build_trade_open [OF ei])
qed

text \<open>
  Claim C2, amended.  An opening bucket of exactly two leg fills, \<open>SLD\<close> at 5.00 and
  \<open>BOT\<close> at 1.50 in either order, gives the entry action \<open>BOT\<close> and the entry price 3.50.
\<close>

theorem two_leg_entry:
  assumes "opening_execs = [a, b] \<or> opening_execs = [b, a]"
    and "side (execution a) = ''SLD''" and "price (execution a) = 5"
    and "side (execution b) = ''BOT''" and "price (execution b) = 3 / 2"
  shows "\<exists>t. build_trade L (opening_execs # later) = Some t \<and>
     entry_action t = ''BOT'' \<and> entry_price t = 7 / 2"
proof -
  have ne: "opening_execs \<noteq> []" using assms(1) by auto
  have nn: "\<forall>e\<in>set opening_execs. \<not> price (execution e) < 0"
    using assms by auto
  have "\<exists>c x. entry_info opening_execs = Some (c, x, 7 / 2, ''BOT'')"
    using assms by (auto simp: entry_info_legs [OF nn ne] sum_price_def)
  then obtain c x where ei: "entry_info opening_execs = Some (c, x, 7 / 2, ''BOT'')" by blast
  show ?thesis
    by (cases later) (simp_all add: build_trade_open [OF ei] build_trade_closed [OF ei])
qed

theorem two_leg_entry_witness:
  "\<exists>t. build_trade ex_fmt
          [[mk_fill 1 10 ''BOT'' (3 / 2) (Some 95) (Some ''P''),
            mk_fill 1 10 ''SLD'' 5 (Some 90) (Some ''P'')]] = Some t \<and>
       entry_action t = ''BOT'' \<and> entry_price t = 7 / 2"
  using two_leg_entry [of _ "mk_fill 1 10 ''SLD'' 5 (Some 90) (Some ''P'')"
      "mk_fill 1 10 ''BOT'' (3 / 2) (Some 95) (Some ''P'')" ex_fmt "[]"]
  by simp



text \<open>
  Claim C1, as stated: an entry price of 3.50 and a closing bucket with the single fill
  \<open>SLD\<close> at +1.00 would give the profit 250.  The order below has the entry price 3.50
  and its profit is not 250.
\<close>

theorem closing_sell_profit_counterexample:
  "map_option entry_price
     (process_order ex_fmt
        [mk_fill 1 10 ''BOT'' (- (7 / 2)) None None, mk_fill 1 20 ''SLD'' 1 None None]) =
     Some (7 / 2) \<and>
   map_option profit
     (process_order ex_fmt
        [mk_fill 1 10 ''BOT'' (- (7 / 2)) None None, mk_fill 1 20 ''SLD'' 1 None None]) =
     Some 450 \<and>
   map_option profit
     (process_order ex_fmt
        [mk_fill 1 10 ''BOT'' (- (7 / 2)) None None, mk_fill 1 20 ''SLD'' 1 None None]) \<noteq>
     Some 250"
proof -
  have tg: "time_groups [mk_fill 1 10 ''BOT'' (- (7 / 2)) None None, mk_fill 1 20 ''SLD'' 1 None None] =
      [[mk_fill 1 10 ''BOT'' (- (7 / 2)) None None], [mk_fill 1 20 ''SLD'' 1 None None]]"
    by (simp add: time_groups_def group_by_def)
  show ?thesis
    by (simp add: process_order_def tg build_trade_closed [OF entry_info_combo [unfolded Let_def]]
        exit_info_fallback sum_price_def)
qed

text \<open>
  Claim C1, amended.  For an entry price of 3.50 and a closing bucket whose single fill
  is \<open>SLD\<close> at +1.00, the search for a closing combo finds nothing, the fallback gives
  the exit price \<open>0 - 1.00 = -1.00\<close> with the exit action \<open>SLD\<close>, and the profit is
  \<open>(3.50 - (-1.00)) * 100 = 450\<close>.
\<close>

theorem closing_sell_profit:
  assumes "entry_info opening_execs = Some (c, x, 7 / 2, a)"
    and "side (execution f) = ''SLD''" and "price (execution f) = 1"
  shows "find (\<lambda>e. side (execution e) = ''SLD'' \<and> price (execution e) < 0) [f] = None \<and>
     exit_info [f] = (- 1, ''SLD'') \<and>
     (\<exists>t. build_trade L (opening_execs # [f] # rest) = Some t \<and>
          entry_price t = 7 / 2 \<and> exit_price t = Some (- 1) \<and> exit_action t = ''SLD'' \<and>
          profit t = 450 \<and> status t = ''closed'')"
proof -
  have x: "exit_info [f] = (- 1, ''SLD'')"
    using assms(2,3) by (simp add: exit_info_fallback sum_price_def)
  show ?thesis
    using assms(2,3) by (simp add: x build_trade_closed [OF assms(1)])
qed

theorem closing_sell_profit_witness:
  "\<exists>t. build_trade ex_fmt
          [[mk_fill 1 10 ''BOT'' (- (7 / 2)) None None], [mk_fill 1 20 ''SLD'' 1 None None]] = Some t \<and>
       profit t = 450"
proof -
  have ei: "entry_info [mk_fill 1 10 ''BOT'' (- (7 / 2)) None None] =
      Some (contract (mk_fill 1 10 ''BOT'' (- (7 / 2)) None None),
            execution (mk_fill 1 10 ''BOT'' (- (7 / 2)) None None), 7 / 2, ''BOT'')"
    by (simp add: entry_info_combo Let_def)
  show ?thesis
    using closing_sell_profit [OF ei, of "mk_fill 1 20 ''SLD'' 1 None None" ex_fmt "[]"]
    by auto
qed

text \<open>
  Claim C7.  The strikes of the opening bucket are the strikes of the fills that have
  one, truncated to integers and sorted ascending.  They are rendered as \<open>low/high\<close>
  from the first two of the sorted list, which are the two smallest, as the single
  value when there is one, and as \<open>unknown\<close> when there is none; the rendering holds at
  most one separator, hence at most two strikes.
\<close>

theorem strikes_rendering:
  "strikes_of opening_execs =
     sort (map py_int (List.map_filter (\<lambda>e. strike (contract e)) opening_execs)) \<and>
   sorted (strikes_of opening_execs) \<and>
   render_strikes (strikes_of opening_execs) =
     (case strikes_of opening_execs of
        [] \<Rightarrow> ''unknown''
      | [a] \<Rightarrow> str_int a
      | low # high # _ \<Rightarrow> str_int low @ ''/'' @ str_int high) \<and>
   (\<forall>low high rest. strikes_of opening_execs = low # high # rest \<longrightarrow>
      low \<le> high \<and> (\<forall>s \<in> set rest. high \<le> s)) \<and>
   count_list (render_strikes (strikes_of opening_execs)) CHR ''/'' \<le> 1"
proof (intro conjI allI impI)
  show "strikes_of opening_execs =
     sort (map py_int (List.map_filter (\<lambda>e. strike (contract e)) opening_execs))"
    by (simp add: strikes_of_def)
  show s: "sorted (strikes_of opening_execs)"
    by (simp add: strikes_of_def)
  show "render_strikes (strikes_of opening_execs) =
     (case strikes_of opening_execs of
        [] \<Rightarrow> ''unknown''
      | [a] \<Rightarrow> str_int a
      | low # high # _ \<Rightarrow> str_int low @ ''/'' @ str_int high)"
    by (rule render_strikes_cases)
  show "count_list (render_strikes (strikes_of opening_execs)) CHR ''/'' \<le> 1"
    by (simp add: render_strikes_cases str_int_no_slash split: list.splits)
  fix low high rest
  assume "strikes_of opening_execs = low # high # rest"
  with s show "low \<le> high" by simp
  from s \<open>strikes_of opening_execs = low # high # rest\<close>
  show "\<forall>s \<in> set rest. high \<le> s" by simp
qed

theorem strikes_rendering_witness:
  "render_strikes (strikes_of [mk_fill 1 10 ''BOT'' (3 / 2) (Some 95) (Some ''P''),
                               mk_fill 1 10 ''SLD'' 5 (Some 90) (Some ''P'')]) = ''90/95'' \<and>
   render_strikes (strikes_of [mk_fill 1 10 ''SLD'' 5 (Some 90) (Some ''P''),
                               mk_fill 1 10 ''BOT'' (3 / 2) (Some 95) (Some ''P'')]) = ''90/95'' \<and>
   render_strikes (strikes_of [mk_fill 1 10 ''SLD'' 5 (Some 100) (Some ''P'')]) = ''100'' \<and>
   render_strikes (strikes_of [mk_fill 1 10 ''SLD'' 5 None None]) = ''unknown''"
proof -
  have 1: "strikes_of [mk_fill 1 10 ''BOT'' (3 / 2) (Some 95) (Some ''P''),
                       mk_fill 1 10 ''SLD'' 5 (Some 90) (Some ''P'')] = [90, 95]"
    by (simp add: strikes_of_def List.map_filter_simps py_int_def)
  have sw: "strikes_of [mk_fill 1 10 ''SLD'' 5 (Some 90) (Some ''P''),
                       mk_fill 1 10 ''BOT'' (3 / 2) (Some 95) (Some ''P'')] = [90, 95]"
    by (simp add: strikes_of_def List.map_filter_simps py_int_def)
  have 2: "strikes_of [mk_fill 1 10 ''SLD'' 5 (Some 100) (Some ''P'')] = [100]"
    by (simp add: strikes_of_def List.map_filter_simps py_int_def)
  have 3: "strikes_of [mk_fill 1 10 ''SLD'' 5 None None] = []"
    by (simp add: strikes_of_def List.map_filter_simps)
  have s: "str_int 90 = ''90''" "str_int 95 = ''95''" "str_int 100 = ''100''"
    by (simp_all add: str_int_def str_nat.simps digit_def)
  have r1: "render_strikes (strikes_of [mk_fill 1 10 ''BOT'' (3 / 2) (Some 95) (Some ''P''),
                               mk_fill 1 10 ''SLD'' 5 (Some 90) (Some ''P'')]) = ''90/95''"
    using strikes_rendering [of "[mk_fill 1 10 ''BOT'' (3 / 2) (Some 95) (Some ''P''),
                               mk_fill 1 10 ''SLD'' 5 (Some 90) (Some ''P'')]",
        THEN conjunct2, THEN conjunct2, THEN conjunct1]
    unfolding 1 by (simp add: s)
  have rsw: "render_strikes (strikes_of [mk_fill 1 10 ''SLD'' 5 (Some 90) (Some ''P''),
                               mk_fill 1 10 ''BOT'' (3 / 2) (Some 95) (Some ''P'')]) = ''90/95''"
    using strikes_rendering [of "[mk_fill 1 10 ''SLD'' 5 (Some 90) (Some ''P''),
                               mk_fill 1 10 ''BOT'' (3 / 2) (Some 95) (Some ''P'')]",
        THEN conjunct2, THEN conjunct2, THEN conjunct1]
    unfolding sw by (simp add: s)
  have r2: "render_strikes (strikes_of [mk_fill 1 10 ''SLD'' 5 (Some 100) (Some ''P'')]) = ''100''"
    using strikes_rendering [of "[mk_fill 1 10 ''SLD'' 5 (Some 100) (Some ''P'')]",
        THEN conjunct2, THEN conjunct2, THEN conjunct1]
    unfolding 2 by (simp add: s)
  have r3: "render_strikes (strikes_of [mk_fill 1 10 ''SLD'' 5 None None]) = ''unknown''"
    using strikes_rendering [of "[mk_fill 1 10 ''SLD'' 5 None None]",
        THEN conjunct2, THEN conjunct2, THEN conjunct1]
    unfolding 3 by simp
  from r1 rsw r2 r3 show ?thesis by blast
qed

text \<open>
  Claim C6.  When all fills of every order share one timestamp, every order yields
  one trade, and every trade is open: the status is \<open>open\<close>, there is no exit price and
  no exit action, the profit is 0, and the cells written are \<open>open\<close>, the empty string
  twice, and \<open>0.00\<close>.
\<close>

theorem single_bucket_open:
  assumes "\<forall>e \<in> set executions. \<forall>e' \<in> set executions.
             permId (execution e) = permId (execution e') \<longrightarrow>
             time (execution e) = time (execution e')"
  shows "length (trades_of L executions) =
           card ((\<lambda>e. permId (execution e)) ` set executions) \<and>
         (\<forall>t \<in> set (trades_of L executions).
            status t = ''open'' \<and> exit_price t = None \<and> exit_action t = '''' \<and> profit t = 0 \<and>
            cell ''status'' (row_of strategy t) = Some ''open'' \<and>
            cell ''exit_price'' (row_of strategy t) = Some '''' \<and>
            cell ''exit_action'' (row_of strategy t) = Some '''' \<and>
            cell ''profit'' (row_of strategy t) = Some ''0.00'')"
proof (intro conjI ballI)
  show "length (trades_of L executions) =
           card ((\<lambda>e. permId (execution e)) ` set executions)"
    by (rule trades_of_length)
next
  fix t
  assume "t \<in> set (trades_of L executions)"
  then obtain k where k: "k \<in> (\<lambda>e. permId (execution e)) ` set executions"
    and po: "process_order L (filter (\<lambda>e. permId (execution e) = k) executions) = Some t"
    using trades_of_mem by blast
  let ?execs = "filter (\<lambda>e. permId (execution e) = k) executions"
  from k obtain e0 where e0: "e0 \<in> set executions" "permId (execution e0) = k" by auto
  then have ne: "?execs \<noteq> []" by (auto simp: filter_empty_conv)
  have same: "\<forall>e \<in> set ?execs. time (execution e) = time (execution e0)"
  proof
    fix e assume "e \<in> set ?execs"
    then have "e \<in> set executions" "permId (execution e) = permId (execution e0)"
      using e0 by simp_all
    with assms e0(1) show "time (execution e) = time (execution e0)" by blast
  qed
  let ?g = "sort_key (\<lambda>e. time (execution e)) ?execs"
  have tg: "time_groups ?execs = [?g]"
    by (rule time_groups_single [OF ne same])
  have "?g \<noteq> []" using ne by (simp add: sort_key_Nil_iff)
  then obtain c x p a where ei: "entry_info ?g = Some (c, x, p, a)"
    using entry_info_Some by blast
  have t: "t = \<lparr>trade_date = fmt_date L (time x),
           trade_type = trade_type_of ?g,
           trade_symbol = symbol c,
           strikes_str = render_strikes (strikes_of ?g),
           entry_action = a,
           entry_time = fmt_datetime L (time x),
           entry_price = p,
           exit_action = '''',
           exit_price = None,
           profit = 0,
           status = ''open''\<rparr>"
    using po unfolding process_order_def tg build_trade_open [OF ei] by simp
  show "status t = ''open''" by (simp add: t)
  show "exit_price t = None" by (simp add: t)
  show "exit_action t = ''''" by (simp add: t)
  show "profit t = 0" by (simp add: t)
  show "cell ''status'' (row_of strategy t) = Some ''open''"
    by (simp add: cell_row_of t)
  show "cell ''exit_price'' (row_of strategy t) = Some ''''"
    by (simp add: cell_row_of t)
  show "cell ''exit_action'' (row_of strategy t) = Some ''''"
    by (simp add: cell_row_of t)
  show "cell ''profit'' (row_of strategy t) = Some ''0.00''"
    by (simp add: cell_row_of t fmt2_zero)
qed

theorem single_bucket_open_witness:
  "length (trades_of ex_fmt [mk_fill 1 10 ''SLD'' 5 (Some 90) (Some ''P''),
                 mk_fill 2 20 ''BOT'' (- (7 / 2)) None None,
                 mk_fill 1 10 ''BOT'' (3 / 2) (Some 95) (Some ''P'')]) = 2 \<and>
   map status (trades_of ex_fmt [mk_fill 1 10 ''SLD'' 5 (Some 90) (Some ''P''),
                 mk_fill 2 20 ''BOT'' (- (7 / 2)) None None,
                 mk_fill 1 10 ''BOT'' (3 / 2) (Some 95) (Some ''P'')]) = [''open'', ''open''] \<and>
   map profit (trades_of ex_fmt [mk_fill 1 10 ''SLD'' 5 (Some 90) (Some ''P''),
                 mk_fill 2 20 ''BOT'' (- (7 / 2)) None None,
                 mk_fill 1 10 ''BOT'' (3 / 2) (Some 95) (Some ''P'')]) = [0, 0] \<and>
   map (\<lambda>t. cell ''exit_price'' (row_of ''S'' t))
     (trades_of ex_fmt [mk_fill 1 10 ''SLD'' 5 (Some 90) (Some ''P''),
                 mk_fill 2 20 ''BOT'' (- (7 / 2)) None None,
                 mk_fill 1 10 ''BOT'' (3 / 2) (Some 95) (Some ''P'')]) = [Some '''', Some '''']"
proof -
  let ?ex = "[mk_fill 1 10 ''SLD'' 5 (Some 90) (Some ''P''),
                 mk_fill 2 20 ''BOT'' (- (7 / 2)) None None,
                 mk_fill 1 10 ''BOT'' (3 / 2) (Some 95) (Some ''P'')]"
  have h: "\<forall>e \<in> set ?ex. \<forall>e' \<in> set ?ex.
        permId (execution e) = permId (execution e') \<longrightarrow>
        time (execution e) = time (execution e')"
    by simp
  have c: "card ((\<lambda>e. permId (execution e)) ` set ?ex) = 2"
    by (simp add: insert_commute)
  have len: "length (trades_of ex_fmt ?ex) = 2"
    and all: "\<forall>t \<in> set (trades_of ex_fmt ?ex).
      status t = ''open'' \<and> profit t = 0 \<and> cell ''exit_price'' (row_of ''S'' t) = Some ''''"
    using single_bucket_open [OF h, of ex_fmt "''S''"] c by simp_all
  from len obtain t1 t2 where ts: "trades_of ex_fmt ?ex = [t1, t2]"
    by (auto simp: length_Suc_conv numeral_2_eq_2)
  from all show ?thesis unfolding ts by simp
qed

text \<open>
  Claim C10.  The \<open>exit_price\<close> cell is empty when the exit price is \<open>None\<close> or zero,
  also for a closed trade; a strictly negative exit price is written with its sign,
  followed by the two-decimal rendering of its absolute value.  A closed trade always
  has an exit price.
\<close>

theorem exit_price_cell:
  "cell ''exit_price'' (row_of strategy t) =
     Some (case exit_price t of
             None \<Rightarrow> ''''
           | Some x \<Rightarrow> if x = 0 then '''' else if x < 0 then CHR ''-'' # fmt2 (- x) else fmt2 x) \<and>
   (build_trade L tgs = Some t \<and> status t = ''closed'' \<longrightarrow> exit_price t \<noteq> None)"
proof
  show "cell ''exit_price'' (row_of strategy t) =
     Some (case exit_price t of
             None \<Rightarrow> ''''
           | Some x \<Rightarrow> if x = 0 then '''' else if x < 0 then CHR ''-'' # fmt2 (- x) else fmt2 x)"
    by (simp add: cell_row_of fmt2_neg split: option.splits)
  show "build_trade L tgs = Some t \<and> status t = ''closed'' \<longrightarrow> exit_price t \<noteq> None"
    using build_trade_cases [of L tgs t] by auto
qed

theorem exit_price_cell_witness:
  "(\<exists>t. build_trade ex_fmt
          [[mk_fill 1 10 ''BOT'' (- (7 / 2)) None None],
           [mk_fill 1 20 ''SLD'' 1 None None, mk_fill 1 20 ''BOT'' 1 None None]] = Some t \<and>
        status t = ''closed'' \<and> exit_price t = Some 0 \<and>
        cell ''exit_price'' (row_of ''S'' t) = Some '''') \<and>
   (\<exists>t. build_trade ex_fmt
          [[mk_fill 1 10 ''BOT'' (- (7 / 2)) None None],
           [mk_fill 1 20 ''SLD'' 1 None None]] = Some t \<and>
        status t = ''closed'' \<and> exit_price t = Some (- 1) \<and>
        cell ''exit_price'' (row_of ''S'' t) = Some ''-1.00'')"
proof
  have ei: "entry_info [mk_fill 1 10 ''BOT'' (- (7 / 2)) None None] =
      Some (contract (mk_fill 1 10 ''BOT'' (- (7 / 2)) None None),
            execution (mk_fill 1 10 ''BOT'' (- (7 / 2)) None None), 7 / 2, ''BOT'')"
    by (simp add: entry_info_combo Let_def)
  have f1: "fmt2 1 = ''1.00''"
    by (simp add: fmt2_def round_half_even_def str_nat.simps digit_def)
  have x0: "exit_info [mk_fill 1 20 ''SLD'' 1 None None, mk_fill 1 20 ''BOT'' 1 None None] =
      (0, ''BOT'')"
    by (simp add: exit_info_fallback sum_price_def)
  have x1: "exit_info [mk_fill 1 20 ''SLD'' 1 None None] = (- 1, ''SLD'')"
    by (simp add: exit_info_fallback sum_price_def)
  obtain t where t: "build_trade ex_fmt
          [[mk_fill 1 10 ''BOT'' (- (7 / 2)) None None],
           [mk_fill 1 20 ''SLD'' 1 None None, mk_fill 1 20 ''BOT'' 1 None None]] = Some t"
      "status t = ''closed''" "exit_price t = Some 0"
    by (simp add: build_trade_closed [OF ei] x0)
  with exit_price_cell [of "''S''" t]
  show "\<exists>t. build_trade ex_fmt
          [[mk_fill 1 10 ''BOT'' (- (7 / 2)) None None],
           [mk_fill 1 20 ''SLD'' 1 None None, mk_fill 1 20 ''BOT'' 1 None None]] = Some t \<and>
        status t = ''closed'' \<and> exit_price t = Some 0 \<and>
        cell ''exit_price'' (row_of ''S'' t) = Some ''''"
    by simp
  obtain u where u: "build_trade ex_fmt
          [[mk_fill 1 10 ''BOT'' (- (7 / 2)) None None],
           [mk_fill 1 20 ''SLD'' 1 None None]] = Some u"
      "status u = ''closed''" "exit_price u = Some (- 1)"
    by (simp add: build_trade_closed [OF ei] x1)
  with exit_price_cell [of "''S''" u]
  show "\<exists>t. build_trade ex_fmt
          [[mk_fill 1 10 ''BOT'' (- (7 / 2)) None None],
           [mk_fill 1 20 ''SLD'' 1 None None]] = Some t \<and>
        status t = ''closed'' \<and> exit_price t = Some (- 1) \<and>
        cell ''exit_price'' (row_of ''S'' t) = Some ''-1.00''"
    by (simp add: f1)
qed

lemma row_of_not_header:
  assumes "t \<in> set (trades_of L executions)"
  shows "row_of strategy t \<noteq> fieldnames"
proof -
  obtain k where "process_order L (filter (\<lambda>e. permId (execution e) = k) executions) = Some t"
    using trades_of_mem [OF assms] by blast
  then have "\<exists>g. build_trade L g = Some t" by (auto simp: process_order_def)
  then have "status t = ''open'' \<or> status t = ''closed''"
    using build_trade_cases by blast
  then show ?thesis by (auto simp: row_of_def fieldnames_def)
qed

text \<open>
  Claim C9.  A run with executions appends one row per trade, one trade per order, to
  the lines the file had, after the header when the file did not exist and with no
  header when it did; the lines of an existing file stay as they were, and no row
  written equals the header.  A run without executions leaves the file alone.
\<close>

theorem ledger_append:
  "collect_daily_results L executions file strategy =
     (if executions = [] then (0, file)
      else (length (trades_of L executions),
            Some ((case file of None \<Rightarrow> [fieldnames] | Some old \<Rightarrow> old) @
                  map (row_of strategy) (trades_of L executions)))) \<and>
   fieldnames \<notin> set (map (row_of strategy) (trades_of L executions)) \<and>
   length (trades_of L executions) =
     card ((\<lambda>e. permId (execution e)) ` set executions)"
proof (intro conjI)
  show "collect_daily_results L executions file strategy =
     (if executions = [] then (0, file)
      else (length (trades_of L executions),
            Some ((case file of None \<Rightarrow> [fieldnames] | Some old \<Rightarrow> old) @
                  map (row_of strategy) (trades_of L executions))))"
    by (cases "file") (simp_all add: collect_daily_results_def Let_def)
  show "fieldnames \<notin> set (map (row_of strategy) (trades_of L executions))"
    using row_of_not_header [of _ L executions strategy] by (metis (no_types) imageE list.set_map)
  show "length (trades_of L executions) =
     card ((\<lambda>e. permId (execution e)) ` set executions)"
    by (rule trades_of_length)
qed

theorem ledger_append_witness:
  "collect_daily_results ex_fmt [mk_fill 1 10 ''BOT'' (- (7 / 2)) None None]
     (Some [fieldnames, [''an old row'']]) ''S'' =
     (1, Some ([fieldnames, [''an old row'']] @
               map (row_of ''S'') (trades_of ex_fmt [mk_fill 1 10 ''BOT'' (- (7 / 2)) None None]))) \<and>
   collect_daily_results ex_fmt [mk_fill 1 10 ''BOT'' (- (7 / 2)) None None] None ''S'' =
     (1, Some (fieldnames #
               map (row_of ''S'') (trades_of ex_fmt [mk_fill 1 10 ''BOT'' (- (7 / 2)) None None]))) \<and>
   collect_daily_results ex_fmt [] None ''S'' = (0, None)"
  using ledger_append [of ex_fmt "[mk_fill 1 10 ''BOT'' (- (7 / 2)) None None]"
           "Some [fieldnames, [''an old row'']]" "''S''"]
    ledger_append [of ex_fmt "[mk_fill 1 10 ''BOT'' (- (7 / 2)) None None]" None "''S''"]
    ledger_append [of ex_fmt "[]" None "''S''"]
  by simp


section \<open>Properties of the pairing in \<open>load_data\<close>\<close>































end
